theory Spec2Isabelle
  imports
    Main
    "HOL-Library.Char_ord"
    "HOL-Library.List_Lexorder"
    "HOL-Library.Option_ord"
    "HOL-Library.Multiset"
    "HOL-Library.Sublist"
begin

section \<open>Strings of the generator\<close>

text \<open>
  The blueprint documentation generator \<^verbatim>\<open>PythonAPI/docs/bp_doc_gen.py\<close> builds one
  Markdown text. Python strings are modelled as \<^typ>\<open>string\<close>; characters are compared by
  their code (\<open>Char_ord\<close>) and strings lexicographically (\<open>List_Lexorder\<close>), as Python
  compares \<^verbatim>\<open>str\<close> values. Python integers are \<^typ>\<open>int\<close>.
\<close>

definition newline :: char where
  "newline = CHR 0x0A"

text \<open>\<^verbatim>\<open>s * n\<close> on a string: \<open>n\<close> copies, none when \<open>n \<le> 0\<close>.\<close>

definition str_mul :: "string \<Rightarrow> int \<Rightarrow> string" where
  "str_mul s n = concat (replicate (nat n) s)"

text \<open>
  \<^verbatim>\<open>str.isspace\<close> on the characters below code 128: tab, line feed, vertical tab, form
  feed, carriage return, the four separators \<open>0x1C\<close> to \<open>0x1F\<close>, and the space.
\<close>

definition isspace :: "char \<Rightarrow> bool" where
  "isspace c = (c \<in> set [CHR 0x09, CHR 0x0A, CHR 0x0B, CHR 0x0C, CHR 0x0D,
                           CHR 0x1C, CHR 0x1D, CHR 0x1E, CHR 0x1F, CHR 0x20])"

text \<open>\<^verbatim>\<open>s.strip()\<close>: leading and trailing whitespace removed.\<close>

definition strip :: "string \<Rightarrow> string" where
  "strip s = rev (dropWhile isspace (rev (dropWhile isspace s)))"

text \<open>The slice \<^verbatim>\<open>s[-1:]\<close>: the last character as a string, empty for the empty string.\<close>

definition last_slice :: "string \<Rightarrow> string" where
  "last_slice s = (if s = [] then [] else [last s])"

text \<open>
  \<^verbatim>\<open>join(elem, separator='')\<close> is \<^verbatim>\<open>separator.join(elem)\<close>; every call of the file
  uses the default separator, so the model fixes it.
\<close>

definition join :: "string list \<Rightarrow> string" where
  "join elem = concat elem"

definition color :: "string \<Rightarrow> string \<Rightarrow> string" where
  "color col buf = join [''<font color='' @ [CHR 0x22], col, [CHR 0x22] @ ''>'', buf, ''</font>'']"

definition italic :: "string \<Rightarrow> string" where
  "italic buf = join [''_'', buf, ''_'']"

definition bold :: "string \<Rightarrow> string" where
  "bold buf = join [''**'', buf, ''**'']"

definition parentheses :: "string \<Rightarrow> string" where
  "parentheses buf = join [''('', buf, '')'']"

definition sub :: "string \<Rightarrow> string" where
  "sub buf = join [''<sub>'', buf, ''</sub>'']"

definition code :: "string \<Rightarrow> string" where
  "code buf = join [[CHR 0x60], buf, [CHR 0x60]]"

definition COLOR_LIST :: string where
  "COLOR_LIST = ''#498efc''"

section \<open>The class MarkdownFile\<close>

text \<open>
  The two attributes every method reads and writes. The third attribute, \<^verbatim>\<open>endl\<close>, is set
  by the constructor to two spaces and a line feed and never assigned again, so it is a
  constant here.
\<close>

record MarkdownFile =
  p_data :: string
  p_list_depth :: int

definition endl :: string where
  "endl = [CHR 0x20, CHR 0x20, newline]"

definition init :: MarkdownFile where
  "init = \<lparr>p_data = [], p_list_depth = 0\<rparr>"

definition data :: "MarkdownFile \<Rightarrow> string" where
  "data self = p_data self"

definition text_md :: "MarkdownFile \<Rightarrow> string \<Rightarrow> MarkdownFile" where
  "text_md self buf = self\<lparr>p_data := join [p_data self, buf]\<rparr>"

definition list_push :: "MarkdownFile \<Rightarrow> string \<Rightarrow> MarkdownFile" where
  "list_push self buf =
     (let self1 =
        (if buf \<noteq> [] then
           text_md self (join [if p_list_depth self \<noteq> 0
                               then str_mul ''    '' (p_list_depth self) else [],
                               ''- '', buf])
         else self)
      in self1\<lparr>p_list_depth := p_list_depth self1 + 1\<rparr>)"

definition list_pushn :: "MarkdownFile \<Rightarrow> string \<Rightarrow> MarkdownFile" where
  "list_pushn self buf = list_push self (join [buf, endl])"

definition list_pop :: "MarkdownFile \<Rightarrow> MarkdownFile" where
  "list_pop self = self\<lparr>p_list_depth := max (p_list_depth self - 1) 0\<rparr>"

definition list_popn :: "MarkdownFile \<Rightarrow> MarkdownFile" where
  "list_popn self =
     (let self1 = list_pop self in self1\<lparr>p_data := join [p_data self1, [newline]]\<rparr>)"

definition list_depth :: "MarkdownFile \<Rightarrow> string" where
  "list_depth self =
     (if last_slice (strip (p_data self)) \<noteq> [newline] \<or> p_list_depth self = 0 then []
      else join [str_mul ''    '' (p_list_depth self)])"

definition textn :: "MarkdownFile \<Rightarrow> string \<Rightarrow> MarkdownFile" where
  "textn self buf = self\<lparr>p_data := join [p_data self, list_depth self, buf, endl]\<rparr>"

definition not_title :: "MarkdownFile \<Rightarrow> string \<Rightarrow> MarkdownFile" where
  "not_title self buf =
     self\<lparr>p_data := join [p_data self, [newline], list_depth self, ''#'', buf, [newline]]\<rparr>"

definition title :: "MarkdownFile \<Rightarrow> int \<Rightarrow> string \<Rightarrow> MarkdownFile" where
  "title self strongness buf =
     self\<lparr>p_data := join [p_data self, [newline], list_depth self,
                          str_mul ''#'' strongness, '' '', buf, [newline]]\<rparr>"

definition new_line :: "MarkdownFile \<Rightarrow> MarkdownFile" where
  "new_line self = self\<lparr>p_data := join [p_data self, endl]\<rparr>"

definition code_block :: "MarkdownFile \<Rightarrow> string \<Rightarrow> string \<Rightarrow> string" where
  "code_block self buf language =
     join [[CHR 0x60, CHR 0x60, CHR 0x60], language, [newline], list_depth self, buf,
           [newline], list_depth self, [CHR 0x60, CHR 0x60, CHR 0x60, newline]]"

text \<open>
  One call of a public method. \<^verbatim>\<open>code_block\<close> and \<^verbatim>\<open>data\<close> assign no attribute: they
  return a string and leave the object as it is.
\<close>

datatype call =
    ListPush string
  | ListPushn string
  | ListPop
  | ListPopn
  | ListDepth
  | Text string
  | Textn string
  | NotTitle string
  | Title int string
  | NewLine
  | CodeBlock string string
  | Data

fun perform :: "call \<Rightarrow> MarkdownFile \<Rightarrow> MarkdownFile" where
  "perform (ListPush buf) self = list_push self buf"
| "perform (ListPushn buf) self = list_pushn self buf"
| "perform ListPop self = list_pop self"
| "perform ListPopn self = list_popn self"
| "perform ListDepth self = self"
| "perform (Text buf) self = text_md self buf"
| "perform (Textn buf) self = textn self buf"
| "perform (NotTitle buf) self = not_title self buf"
| "perform (Title strongness buf) self = title self strongness buf"
| "perform NewLine self = new_line self"
| "perform (CodeBlock buf language) self = self"
| "perform Data self = self"

fun perform_all :: "call list \<Rightarrow> MarkdownFile \<Rightarrow> MarkdownFile" where
  "perform_all [] self = self"
| "perform_all (c # cs) self = perform_all cs (perform c self)"

section \<open>The document assembler\<close>

text \<open>
  What the generator reads of the simulator's blueprint library: a blueprint has an
  identifier and, when iterated, yields its attributes; an attribute has an identifier, a
  type (of which only \<^verbatim>\<open>str(attr.type)\<close> is used) and the flag \<^verbatim>\<open>is_modifiable\<close>.
\<close>

record attribute =
  id_attr :: string
  type_attr :: string
  is_modifiable :: bool

record blueprint =
  id_bp :: string
  attributes :: "attribute list"

datatype py_error = RuntimeError | IndexError | OtherError string

text \<open>\<^verbatim>\<open>s.split(sep)\<close> for a one-character separator: the fields between the separators.\<close>

fun split_char :: "char \<Rightarrow> string \<Rightarrow> string list" where
  "split_char sep [] = [[]]"
| "split_char sep (c # cs) =
     (if c = sep then [] # split_char sep cs
      else (case split_char sep cs of
              [] \<Rightarrow> [[c]]
            | part # parts \<Rightarrow> (c # part) # parts))"

text \<open>\<^verbatim>\<open>bp_id.split('.')[0]\<close>; the split has at least one field, so the index is in range.\<close>

definition bp_type_of :: "string \<Rightarrow> string" where
  "bp_type_of bp_id = hd (split_char CHR ''.'' bp_id)"

text \<open>
  The list \<^verbatim>\<open>value\<close> of the grouping loop is either \<^verbatim>\<open>[]\<close> (no blueprint has the
  identifier) or \<^verbatim>\<open>[bp_id, bp]\<close>: \<open>None\<close> or \<open>Some (bp_id, bp)\<close>.
\<close>

type_synonym bp_value = "(string \<times> blueprint) option"

text \<open>The inner loop: the last blueprint whose identifier is \<open>bp_id\<close> wins.\<close>

fun find_value :: "string \<Rightarrow> blueprint list \<Rightarrow> bp_value \<Rightarrow> bp_value" where
  "find_value bp_id [] v = v"
| "find_value bp_id (bp # bps) v =
     find_value bp_id bps (if id_bp bp = bp_id then Some (bp_id, bp) else v)"

text \<open>
  \<^verbatim>\<open>bp_dict\<close> is a dictionary iterated in insertion order (Python 3.7 and later): an
  association list with distinct keys, a new key going to the end.
\<close>

type_synonym bp_dict = "(string \<times> bp_value list) list"

text \<open>
  \<^verbatim>\<open>if bp_type in bp_dict: bp_dict[bp_type].append(value)
  else: bp_dict[bp_type] = [value]\<close>
\<close>

fun dict_add :: "string \<Rightarrow> bp_value \<Rightarrow> bp_dict \<Rightarrow> bp_dict" where
  "dict_add bp_type v [] = [(bp_type, [v])]"
| "dict_add bp_type v ((k, vs) # d) =
     (if k = bp_type then (k, vs @ [v]) # d else (k, vs) # dict_add bp_type v d)"

fun group_loop :: "string list \<Rightarrow> blueprint list \<Rightarrow> bp_dict \<Rightarrow> bp_dict" where
  "group_loop [] blueprints d = d"
| "group_loop (bp_id # ids) blueprints d =
     group_loop ids blueprints
       (dict_add (bp_type_of bp_id) (find_value bp_id blueprints None) d)"

text \<open>
  Both \<^verbatim>\<open>blueprints\<close> and \<^verbatim>\<open>blueprint_ids\<close> come from the same query of the library.
\<close>

definition group_blueprints :: "blueprint list \<Rightarrow> bp_dict" where
  "group_blueprints blueprints =
     group_loop (sort (map id_bp blueprints)) blueprints []"

text \<open>
  \<^verbatim>\<open>sorted(value)\<close> orders the lists \<^verbatim>\<open>[bp_id, bp]\<close>: by identifier, \<^verbatim>\<open>[]\<close> first. Two
  entries with the same identifier hold the same blueprint object, so the comparison never
  has to order two blueprints. The sort is stable.
\<close>

definition sorted_values :: "bp_value list \<Rightarrow> bp_value list" where
  "sorted_values vs = sort_key (map_option fst) vs"

definition intro_text :: string where
  "intro_text =
     ''The Blueprint Library ([''
     @ code ''carla.BlueprintLibrary''
     @ ''](../python_api/#carlablueprintlibrary-class)) ''
     @ ''is a summary of all [''
     @ code ''carla.ActorBlueprint''
     @ ''](../python_api/#carla.ActorBlueprint) ''
     @ ''and its attributes ([''
     @ code ''carla.ActorAttribute''
     @ ''](../python_api/#carla.ActorAttribute)) ''
     @ ''available to the user in CARLA.''"

definition example_code :: string where
  "example_code =
     ''blueprints = [bp for bp in world.get_blueprint_library().filter(''
     @ [CHR 0x27] @ ''*'' @ [CHR 0x27] @ '')]'' @ [newline]
     @ ''for blueprint in blueprints:'' @ [newline]
     @ ''   print(blueprint.id)'' @ [newline]
     @ ''   for attr in blueprint:'' @ [newline]
     @ ''       print('' @ [CHR 0x27] @ ''  - {}'' @ [CHR 0x27] @ ''.format(attr))''"

definition preamble :: "MarkdownFile \<Rightarrow> MarkdownFile" where
  "preamble md0 =
     (let md1 = not_title md0 ''Blueprint Library'';
          md2 = textn md1 intro_text;
          md3 = textn md2
                  ([newline] @ ''Here is an example code for printing all actor blueprints and their attributes:'');
          md4 = textn md3 (code_block md3 example_code ''py'')
      in textn md4 ''Check out the [introduction to blueprints](core_actors.md).'')"

text \<open>The body of the loop over the attributes of one blueprint.\<close>

definition render_attr :: "MarkdownFile \<Rightarrow> attribute \<Rightarrow> MarkdownFile" where
  "render_attr md0 attr =
     (let md1 = list_push md0 (code (id_attr attr));
          md2 = text_md md1 ('' '' @ parentheses (italic (type_attr attr)));
          md3 = (if is_modifiable attr
                 then text_md md2 ('' '' @ sub (italic ''- Modifiable'')) else md2)
      in list_popn md3)"

fun render_attrs :: "MarkdownFile \<Rightarrow> attribute list \<Rightarrow> MarkdownFile" where
  "render_attrs md [] = md"
| "render_attrs md (attr # attrs) = render_attrs (render_attr md attr) attrs"

text \<open>
  The body of the loop over \<^verbatim>\<open>sorted(value)\<close>; \<^verbatim>\<open>bp[0]\<close> raises \<^verbatim>\<open>IndexError\<close> on the
  empty list.
\<close>

definition render_bp :: "MarkdownFile \<Rightarrow> bp_value \<Rightarrow> py_error + MarkdownFile" where
  "render_bp md0 v =
     (case v of
        None \<Rightarrow> Inl IndexError
      | Some (bp_id, bp) \<Rightarrow>
          (let md1 = list_pushn md0 (bold (color COLOR_LIST bp_id));
               md2 = list_push md1 (bold ''Attributes:'' @ [newline]);
               md3 = render_attrs md2 (sort_key id_attr (attributes bp))
           in Inr (list_pop (list_pop md3))))"

fun render_bps :: "MarkdownFile \<Rightarrow> bp_value list \<Rightarrow> py_error + MarkdownFile" where
  "render_bps md [] = Inr md"
| "render_bps md (v # vs) =
     (case render_bp md v of Inl e \<Rightarrow> Inl e | Inr md' \<Rightarrow> render_bps md' vs)"

text \<open>The loop over \<^verbatim>\<open>bp_dict.items()\<close>.\<close>

fun render_dict :: "MarkdownFile \<Rightarrow> bp_dict \<Rightarrow> py_error + MarkdownFile" where
  "render_dict md [] = Inr md"
| "render_dict md ((key, vs) # d) =
     (case render_bps (title md 3 key) (sorted_values vs) of
        Inl e \<Rightarrow> Inl e
      | Inr md' \<Rightarrow> render_dict (list_pop md') d)"

text \<open>
  \<^verbatim>\<open>generate_pb_docs\<close>. The argument is what the simulator answers: the exception that the
  client raises, or the blueprints of the library. The result is the lines printed and
  either the exception that leaves the function or the document.
\<close>

definition generate_pb_docs ::
  "py_error + blueprint list \<Rightarrow> string list \<times> (py_error + string)" where
  "generate_pb_docs world =
     ([''Generating API blueprint documentation...''],
      (case world of
         Inl e \<Rightarrow> Inl e
       | Inr blueprints \<Rightarrow>
           (case render_dict (preamble init) (group_blueprints blueprints) of
              Inl e \<Rightarrow> Inl e
            | Inr md \<Rightarrow> Inr (data md))))"

section \<open>The entry point\<close>

text \<open>
  How a run of \<^verbatim>\<open>main\<close> ends: it returns, it calls \<^verbatim>\<open>sys.exit\<close>, or an exception
  leaves it. The interpreter turns that into the status of the process.
\<close>

datatype ending = Returned | SysExit int | Uncaught py_error

record outcome =
  stdout :: "string list"
  written :: "string option"
  ended :: ending

definition exit_status :: "ending \<Rightarrow> int" where
  "exit_status e = (case e of Returned \<Rightarrow> 0 | SysExit n \<Rightarrow> n | Uncaught _ \<Rightarrow> 1)"

definition connection_diagnostic :: "string list" where
  "connection_diagnostic =
     [[newline] @ ''  [ERROR] Can'' @ [CHR 0x27] @ ''t establish connection with the simulator'',
      '' .---------------------------------------------------.'',
      ''  |       Make sure the simulator is connected!       |'',
      ''  '' @ [CHR 0x27] @ ''---------------------------------------------------''
        @ [CHR 0x27, newline]]"

text \<open>
  \<^verbatim>\<open>main\<close>. \<open>file_error\<close> is the exception that opening or writing the output file
  raises, if any.
\<close>

definition main :: "py_error + blueprint list \<Rightarrow> py_error option \<Rightarrow> outcome" where
  "main world file_error =
     (case generate_pb_docs world of
        (printed, Inl RuntimeError) \<Rightarrow>
          \<lparr>stdout = printed @ connection_diagnostic, written = None, ended = SysExit 0\<rparr>
      | (printed, Inl e) \<Rightarrow>
          \<lparr>stdout = printed, written = None, ended = Uncaught e\<rparr>
      | (printed, Inr docs) \<Rightarrow>
          (case file_error of
             Some e \<Rightarrow> \<lparr>stdout = printed, written = None, ended = Uncaught e\<rparr>
           | None \<Rightarrow> \<lparr>stdout = printed @ [''Done!''], written = Some docs, ended = Returned\<rparr>))"

section \<open>The layout of the document\<close>

text \<open>
  The text of one attribute line, of one blueprint entry with its attribute lines in the
  given order, of one category section with its entries in the given order, and of the
  whole document with its sections in the given order.
\<close>

definition attribute_line :: "attribute \<Rightarrow> string" where
  "attribute_line attr =
     ''        - '' @ code (id_attr attr) @ '' '' @ parentheses (italic (type_attr attr))
     @ (if is_modifiable attr then '' '' @ sub (italic ''- Modifiable'') else [])
     @ [newline]"

definition blueprint_entry :: "string \<times> attribute list \<Rightarrow> string" where
  "blueprint_entry e =
     ''- '' @ bold (color COLOR_LIST (fst e)) @ endl
     @ ''    - '' @ bold ''Attributes:'' @ [newline]
     @ concat (map attribute_line (snd e))"

definition category_section :: "string \<times> (string \<times> attribute list) list \<Rightarrow> string" where
  "category_section s =
     [newline] @ ''### '' @ fst s @ [newline] @ concat (map blueprint_entry (snd s))"

definition document_text :: "(string \<times> (string \<times> attribute list) list) list \<Rightarrow> string" where
  "document_text sections = data (preamble init) @ concat (map category_section sections)"

text \<open>
  What the three nested loops of \<^verbatim>\<open>generate_pb_docs\<close> go through, in their order: the
  items of \<^verbatim>\<open>bp_dict\<close>, for each the entries of \<^verbatim>\<open>sorted(value)\<close>, for each the
  attributes of \<^verbatim>\<open>sorted(bp[1], key=lambda x: x.id)\<close>.
\<close>

definition entries_of :: "bp_value list \<Rightarrow> (string \<times> attribute list) list" where
  "entries_of vs =
     map (\<lambda>(bp_id, bp). (bp_id, sort_key id_attr (attributes bp)))
       (List.map_filter (\<lambda>v. v) (sorted_values vs))"

definition layout :: "blueprint list \<Rightarrow> (string \<times> (string \<times> attribute list) list) list" where
  "layout blueprints = map (\<lambda>(key, vs). (key, entries_of vs)) (group_blueprints blueprints)"

text \<open>The identifiers held by the groups of a dictionary, group after group.\<close>

definition flatten_ids :: "bp_dict \<Rightarrow> string list" where
  "flatten_ids d = concat (map (\<lambda>(key, vs). map fst (List.map_filter (\<lambda>v. v) vs)) d)"

text \<open>The distinct elements of a list in the order of their first occurrence.\<close>

fun first_occurrences :: "'a list \<Rightarrow> 'a list" where
  "first_occurrences [] = []"
| "first_occurrences (x # xs) = x # first_occurrences (removeAll x xs)"

section \<open>Properties of the accumulator\<close>

lemma strip_not_ends_space: "strip s \<noteq> [] \<Longrightarrow> \<not> isspace (last (strip s))"
proof -
  assume ne: "strip s \<noteq> []"
  let ?t = "dropWhile isspace (rev (dropWhile isspace s))"
  from ne have t: "?t \<noteq> []" by (simp add: strip_def)
  then have "\<not> isspace (hd ?t)" by (rule hd_dropWhile)
  moreover have "last (strip s) = hd ?t" using t by (simp add: strip_def last_rev)
  ultimately show ?thesis by simp
qed

lemma last_slice_strip: "last_slice (strip s) \<noteq> [newline]"
proof (cases "strip s = []")
  case True
  then show ?thesis by (simp add: last_slice_def)
next
  case False
  then have "\<not> isspace (last (strip s))" by (rule strip_not_ends_space)
  moreover have "isspace newline" by (simp add: isspace_def newline_def)
  ultimately have "last (strip s) \<noteq> newline" by auto
  with False show ?thesis by (simp add: last_slice_def)
qed

lemma list_depth_empty: "list_depth self = []"
  by (simp add: list_depth_def last_slice_strip)

lemma str_mul_nonpos: "n \<le> 0 \<Longrightarrow> str_mul s n = []"
  by (simp add: str_mul_def)

lemma str_mul_numerals:
  "str_mul s 0 = []" "str_mul s 1 = s" "str_mul s 2 = s @ s" "str_mul s 3 = s @ s @ s"
  by (simp_all add: str_mul_def numeral_2_eq_2 numeral_3_eq_3)

lemma text_md_simps:
  "p_data (text_md self buf) = p_data self @ buf"
  "p_list_depth (text_md self buf) = p_list_depth self"
  by (simp_all add: text_md_def join_def)

lemma list_push_simps:
  "p_data (list_push self buf) =
     p_data self @ (if buf = [] then [] else str_mul ''    '' (p_list_depth self) @ ''- '' @ buf)"
  "p_list_depth (list_push self buf) = p_list_depth self + 1"
  by (simp_all add: list_push_def Let_def text_md_simps join_def str_mul_def)

lemma list_pushn_simps:
  "p_data (list_pushn self buf) =
     p_data self @ str_mul ''    '' (p_list_depth self) @ ''- '' @ buf @ endl"
  "p_list_depth (list_pushn self buf) = p_list_depth self + 1"
  by (simp_all add: list_pushn_def list_push_simps join_def endl_def)

lemma list_pop_simps:
  "p_data (list_pop self) = p_data self"
  "p_list_depth (list_pop self) = max (p_list_depth self - 1) 0"
  by (simp_all add: list_pop_def)

lemma list_popn_simps:
  "p_data (list_popn self) = p_data self @ [newline]"
  "p_list_depth (list_popn self) = max (p_list_depth self - 1) 0"
  by (simp_all add: list_popn_def Let_def list_pop_simps join_def)

lemma textn_simps:
  "p_data (textn self buf) = p_data self @ buf @ endl"
  "p_list_depth (textn self buf) = p_list_depth self"
  by (simp_all add: textn_def join_def list_depth_empty)

lemma not_title_simps:
  "p_data (not_title self buf) = p_data self @ [newline] @ ''#'' @ buf @ [newline]"
  "p_list_depth (not_title self buf) = p_list_depth self"
  by (simp_all add: not_title_def join_def list_depth_empty)

lemma title_simps:
  "p_data (title self strongness buf) =
     p_data self @ [newline] @ str_mul ''#'' strongness @ '' '' @ buf @ [newline]"
  "p_list_depth (title self strongness buf) = p_list_depth self"
  by (simp_all add: title_def join_def list_depth_empty)

lemma new_line_simps:
  "p_data (new_line self) = p_data self @ endl"
  "p_list_depth (new_line self) = p_list_depth self"
  by (simp_all add: new_line_def join_def)

lemmas md_simps = text_md_simps list_push_simps list_pushn_simps list_pop_simps
  list_popn_simps textn_simps not_title_simps title_simps new_line_simps

lemma MarkdownFile_eqI:
  "p_data a = p_data b \<Longrightarrow> p_list_depth a = p_list_depth b \<Longrightarrow> a = (b :: MarkdownFile)"
  by simp

lemma perform_depth_nonneg: "0 \<le> p_list_depth self \<Longrightarrow> 0 \<le> p_list_depth (perform c self)"
  by (cases c) (simp_all add: md_simps)

lemma perform_all_depth_nonneg:
  "0 \<le> p_list_depth self \<Longrightarrow> 0 \<le> p_list_depth (perform_all cs self)"
  by (induction cs arbitrary: self) (simp_all add: perform_depth_nonneg)

lemma perform_prefix: "prefix (p_data self) (p_data (perform c self))"
  by (cases c) (simp_all add: md_simps)

lemma perform_all_prefix: "prefix (p_data self) (p_data (perform_all cs self))"
proof (induction cs arbitrary: self)
  case Nil
  show ?case by simp
next
  case (Cons c cs)
  have "prefix (p_data self) (p_data (perform c self))" by (rule perform_prefix)
  also have "prefix \<dots> (p_data (perform_all cs (perform c self)))" by (rule Cons.IH)
  finally show ?case by simp
qed

text \<open>
  Claim C6. From a fresh accumulator the depth is never negative, whatever methods are
  called in whatever order; \<^verbatim>\<open>list_pop\<close> keeps a depth of 0 at 0 and takes a positive
  depth \<open>d\<close> to \<open>d - 1\<close>.
\<close>

theorem depth_never_negative:
  "0 \<le> p_list_depth (perform_all cs init) \<and>
   (p_list_depth self = 0 \<longrightarrow> p_list_depth (list_pop self) = 0) \<and>
   (0 < p_list_depth self \<longrightarrow> p_list_depth (list_pop self) = p_list_depth self - 1)"
  by (simp add: perform_all_depth_nonneg init_def list_pop_simps)

theorem depth_never_negative_witness:
  "0 \<le> p_list_depth (perform_all [ListPop, ListPush ''a'', ListPopn, ListPop] init) \<and>
   p_list_depth (list_pop init) = 0 \<and>
   p_list_depth (list_pop \<lparr>p_data = ''a'', p_list_depth = 2\<rparr>) = 1"
  using depth_never_negative [of "[ListPop, ListPush ''a'', ListPopn, ListPop]" init]
    depth_never_negative [of "[]" "\<lparr>p_data = ''a'', p_list_depth = 2\<rparr>"]
  by (simp add: init_def)

text \<open>
  Claim C7. \<^verbatim>\<open>list_push\<close> with a non-empty text appends four spaces repeated depth
  times, then \<^verbatim>\<open>- \<close> and the text, and adds 1 to the depth; with the empty text it
  leaves the buffer as it is and adds 1 to the depth.
\<close>

theorem list_push_spec:
  "(buf \<noteq> [] \<longrightarrow>
      p_data (list_push self buf) =
        p_data self @ concat (replicate (nat (p_list_depth self)) ''    '') @ ''- '' @ buf \<and>
      p_list_depth (list_push self buf) = p_list_depth self + 1) \<and>
   (buf = [] \<longrightarrow>
      p_data (list_push self buf) = p_data self \<and>
      p_list_depth (list_push self buf) = p_list_depth self + 1)"
  by (simp add: list_push_simps str_mul_def)

theorem list_push_spec_witness:
  "p_data (list_push \<lparr>p_data = ''a'', p_list_depth = 2\<rparr> ''x'') = ''a        - x'' \<and>
   p_list_depth (list_push \<lparr>p_data = ''a'', p_list_depth = 2\<rparr> ''x'') = 3 \<and>
   p_data (list_push \<lparr>p_data = ''a'', p_list_depth = 2\<rparr> '''') = ''a'' \<and>
   p_list_depth (list_push \<lparr>p_data = ''a'', p_list_depth = 2\<rparr> '''') = 3"
  using list_push_spec [of "''x''" "\<lparr>p_data = ''a'', p_list_depth = 2\<rparr>"]
    list_push_spec [of "''''" "\<lparr>p_data = ''a'', p_list_depth = 2\<rparr>"]
  by (simp add: numeral_2_eq_2)

text \<open>
  Claim C9. \<^verbatim>\<open>text\<close>, \<^verbatim>\<open>textn\<close>, \<^verbatim>\<open>not_title\<close>, \<^verbatim>\<open>title\<close>, \<^verbatim>\<open>new_line\<close>,
  \<^verbatim>\<open>code_block\<close> and \<^verbatim>\<open>data\<close> leave the depth unchanged; \<^verbatim>\<open>list_push\<close> and
  \<^verbatim>\<open>list_pushn\<close> add 1 to it, \<^verbatim>\<open>list_pop\<close> and \<^verbatim>\<open>list_popn\<close> take 1 from it, not
  below 0.
\<close>

theorem depth_frame:
  "p_list_depth (text_md self buf) = p_list_depth self \<and>
   p_list_depth (textn self buf) = p_list_depth self \<and>
   p_list_depth (not_title self buf) = p_list_depth self \<and>
   p_list_depth (title self strongness buf) = p_list_depth self \<and>
   p_list_depth (new_line self) = p_list_depth self \<and>
   perform (CodeBlock buf language) self = self \<and>
   perform Data self = self \<and>
   p_list_depth (list_push self buf) = p_list_depth self + 1 \<and>
   p_list_depth (list_pushn self buf) = p_list_depth self + 1 \<and>
   p_list_depth (list_pop self) = max (p_list_depth self - 1) 0 \<and>
   p_list_depth (list_popn self) = max (p_list_depth self - 1) 0"
  by (simp add: md_simps)

theorem depth_frame_witness:
  "p_list_depth (textn \<lparr>p_data = ''a'' @ [newline], p_list_depth = 2\<rparr> ''x'') = 2 \<and>
   p_list_depth (list_pop (list_pushn init ''x'')) = 0 \<and>
   p_list_depth (list_popn init) = 0"
  using depth_frame [of "\<lparr>p_data = ''a'' @ [newline], p_list_depth = 2\<rparr>" "''x''"]
    depth_frame [of "list_pushn init ''x''" "''x''"]
    depth_frame [of init "''x''"]
  by (simp add: init_def)

text \<open>
  Claim C10. The buffer is append-only: after one call, and after any sequence of calls,
  the earlier buffer is a prefix of the later one; \<^verbatim>\<open>code_block\<close> and \<^verbatim>\<open>data\<close> leave the
  buffer exactly as it is.
\<close>

theorem buffer_append_only:
  "prefix (data self) (data (perform c self)) \<and>
   prefix (data self) (data (perform_all cs self)) \<and>
   data (perform (CodeBlock buf language) self) = data self \<and>
   data (perform Data self) = data self"
  by (simp add: data_def perform_prefix perform_all_prefix)

theorem buffer_append_only_witness:
  "prefix ''a'' (data (perform (Textn ''x'') \<lparr>p_data = ''a'', p_list_depth = 1\<rparr>)) \<and>
   prefix ''a'' (data (perform_all [ListPush ''b'', Title 3 ''c'', ListPopn]
                         \<lparr>p_data = ''a'', p_list_depth = 1\<rparr>))"
  using buffer_append_only [of "\<lparr>p_data = ''a'', p_list_depth = 1\<rparr>" "Textn ''x''"
      "[ListPush ''b'', Title 3 ''c'', ListPopn]"]
  by (simp add: data_def)

text \<open>
  Claim C2. The buffer ends with a line break and the depth is 1, so \<^verbatim>\<open>textn\<close> should
  put four spaces before the text. It puts none: \<^verbatim>\<open>strip()\<close> has removed the line break
  before \<^verbatim>\<open>list_depth\<close> looks for it.
\<close>

theorem textn_no_indent_after_line_break:
  "textn \<lparr>p_data = ''a'' @ [newline], p_list_depth = 1\<rparr> ''x''
     = \<lparr>p_data = ''a'' @ [newline] @ ''x'' @ endl, p_list_depth = 1\<rparr> \<and>
   textn \<lparr>p_data = ''a'' @ [newline], p_list_depth = 1\<rparr> ''x''
     \<noteq> \<lparr>p_data = ''a'' @ [newline] @ ''    '' @ ''x'' @ endl, p_list_depth = 1\<rparr>"
  by (simp add: textn_def list_depth_def last_slice_def strip_def isspace_def newline_def
      join_def endl_def)

text \<open>
  Claim C8, as stated, at the empty text: \<^verbatim>\<open>list_push\<close> emits nothing, \<^verbatim>\<open>list_pushn\<close>
  emits a bullet.
\<close>

theorem list_pushn_empty_counterexample:
  "p_data (list_push init []) = p_data init \<and>
   p_data (list_pushn init []) \<noteq> p_data init \<and>
   p_data (list_pushn init []) = ''- '' @ endl"
  by (simp add: list_push_def list_pushn_def init_def join_def text_md_def endl_def)

text \<open>
  Claim C8, amended. \<^verbatim>\<open>list_pushn\<close> with a text is \<^verbatim>\<open>list_push\<close> with that text followed
  by \<^verbatim>\<open>endl\<close>, which ends with a line break. The depth is the one \<^verbatim>\<open>list_push\<close> gives.
  For a non-empty text the buffer is the one \<^verbatim>\<open>list_push\<close> gives followed by
  \<^verbatim>\<open>endl\<close>; for the empty text \<^verbatim>\<open>list_pushn\<close> still emits a bullet, made of the
  indentation, \<^verbatim>\<open>- \<close> and \<^verbatim>\<open>endl\<close>.
\<close>

theorem list_pushn_spec:
  "list_pushn self buf = list_push self (buf @ endl) \<and>
   p_list_depth (list_pushn self buf) = p_list_depth (list_push self buf) \<and>
   (buf \<noteq> [] \<longrightarrow> p_data (list_pushn self buf) = p_data (list_push self buf) @ endl) \<and>
   (buf = [] \<longrightarrow>
      p_data (list_pushn self buf) =
        p_data self @ concat (replicate (nat (p_list_depth self)) ''    '') @ ''- '' @ endl) \<and>
   last endl = CHR 0x0A"
  by (simp add: md_simps str_mul_def) (simp add: list_pushn_def join_def endl_def newline_def)

theorem list_pushn_spec_witness:
  "p_data (list_pushn \<lparr>p_data = ''a'', p_list_depth = 1\<rparr> ''x'')
     = p_data (list_push \<lparr>p_data = ''a'', p_list_depth = 1\<rparr> ''x'') @ endl \<and>
   p_data (list_pushn \<lparr>p_data = ''a'', p_list_depth = 1\<rparr> '''') = ''a    - '' @ endl"
proof -
  let ?m = "\<lparr>p_data = ''a'', p_list_depth = 1\<rparr>"
  have ne: "''x'' \<noteq> []" by simp
  from list_pushn_spec [of ?m "''x''"] ne
  have 1: "p_data (list_pushn ?m ''x'') = p_data (list_push ?m ''x'') @ endl" by blast
  from list_pushn_spec [of ?m "[]"]
  have 2: "p_data (list_pushn ?m []) =
     p_data ?m @ concat (replicate (nat (p_list_depth ?m)) ''    '') @ ''- '' @ endl"
    by blast
  from 1 2 show ?thesis by simp
qed

lemma split_char_nonempty: "split_char sep s \<noteq> []"
  by (induction s) (auto split: list.splits)

lemma hd_split_char: "hd (split_char sep s) = takeWhile (\<lambda>c. c \<noteq> sep) s"
proof (induction s)
  case Nil
  show ?case by simp
next
  case (Cons c s)
  then show ?case using split_char_nonempty [of sep s] by (auto split: list.splits)
qed

lemma bp_type_of_takeWhile: "bp_type_of bp_id = takeWhile (\<lambda>c. c \<noteq> CHR ''.'') bp_id"
  by (simp add: bp_type_of_def hd_split_char)

text \<open>What the rendering loops append, given the depth they start from.\<close>

lemma render_attr_text:
  assumes "p_list_depth md = 2"
  shows "render_attr md attr = md\<lparr>p_data := p_data md @ attribute_line attr\<rparr>"
proof (rule MarkdownFile_eqI)
  show "p_data (render_attr md attr) = p_data (md\<lparr>p_data := p_data md @ attribute_line attr\<rparr>)"
    using assms
    by (simp add: render_attr_def Let_def md_simps attribute_line_def code_def join_def
        str_mul_numerals)
  show "p_list_depth (render_attr md attr)
          = p_list_depth (md\<lparr>p_data := p_data md @ attribute_line attr\<rparr>)"
    using assms by (simp add: render_attr_def Let_def md_simps)
qed

lemma render_attrs_text:
  "p_list_depth md = 2 \<Longrightarrow>
   render_attrs md attrs = md\<lparr>p_data := p_data md @ concat (map attribute_line attrs)\<rparr>"
proof (induction attrs arbitrary: md)
  case Nil
  show ?case by simp
next
  case (Cons a attrs)
  have "p_list_depth (md\<lparr>p_data := p_data md @ attribute_line a\<rparr>) = 2"
    using Cons.prems by simp
  then show ?case using Cons.prems by (simp add: render_attr_text Cons.IH)
qed

lemma render_bp_text:
  assumes "p_list_depth md = 0"
  shows "render_bp md (Some (bp_id, bp)) =
     Inr (md\<lparr>p_data := p_data md @ blueprint_entry (bp_id, sort_key id_attr (attributes bp))\<rparr>)"
proof -
  let ?md1 = "list_pushn md (bold (color COLOR_LIST bp_id))"
  let ?md2 = "list_push ?md1 (bold ''Attributes:'' @ [newline])"
  let ?attrs = "sort_key id_attr (attributes bp)"
  have d2: "p_list_depth ?md2 = 2" using assms by (simp add: md_simps)
  have data2: "p_data ?md2 = p_data md @ ''- '' @ bold (color COLOR_LIST bp_id) @ endl
      @ ''    - '' @ bold ''Attributes:'' @ [newline]"
    using assms by (simp add: md_simps str_mul_numerals bold_def join_def)
  have r: "render_attrs ?md2 ?attrs
      = ?md2\<lparr>p_data := p_data ?md2 @ concat (map attribute_line ?attrs)\<rparr>"
    using d2 by (rule render_attrs_text)
  have "list_pop (list_pop (render_attrs ?md2 ?attrs))
      = md\<lparr>p_data := p_data md @ blueprint_entry (bp_id, ?attrs)\<rparr>"
  proof (rule MarkdownFile_eqI)
    show "p_data (list_pop (list_pop (render_attrs ?md2 ?attrs)))
        = p_data (md\<lparr>p_data := p_data md @ blueprint_entry (bp_id, ?attrs)\<rparr>)"
      by (simp only: r list_pop_simps) (simp add: data2 blueprint_entry_def)
    show "p_list_depth (list_pop (list_pop (render_attrs ?md2 ?attrs)))
        = p_list_depth (md\<lparr>p_data := p_data md @ blueprint_entry (bp_id, ?attrs)\<rparr>)"
      by (simp only: r list_pop_simps) (simp add: d2 assms)
  qed
  then show ?thesis by (simp add: render_bp_def Let_def)
qed

lemma render_bps_text:
  "p_list_depth md = 0 \<Longrightarrow> None \<notin> set vs \<Longrightarrow>
   render_bps md vs =
     Inr (md\<lparr>p_data := p_data md @ concat (map blueprint_entry
            (map (\<lambda>(bp_id, bp). (bp_id, sort_key id_attr (attributes bp)))
               (List.map_filter (\<lambda>v. v) vs)))\<rparr>)"
proof (induction vs arbitrary: md)
  case Nil
  show ?case by (simp add: map_filter_simps)
next
  case (Cons v vs)
  from Cons.prems obtain bp_id bp where v: "v = Some (bp_id, bp)" by (cases v) auto
  let ?md' = "md\<lparr>p_data := p_data md @ blueprint_entry (bp_id, sort_key id_attr (attributes bp))\<rparr>"
  have d: "p_list_depth ?md' = 0" using Cons.prems by simp
  have n: "None \<notin> set vs" using Cons.prems by simp
  show ?case
    by (simp add: v render_bp_text [OF Cons.prems(1)] Cons.IH [OF d n] map_filter_simps)
qed

lemma sorted_values_set: "set (sorted_values vs) = set vs"
  by (simp add: sorted_values_def)

lemma render_dict_text:
  "p_list_depth md = 0 \<Longrightarrow> \<forall>(key, vs) \<in> set d. None \<notin> set vs \<Longrightarrow>
   render_dict md d =
     Inr (md\<lparr>p_data := p_data md @ concat (map category_section
            (map (\<lambda>(key, vs). (key, entries_of vs)) d))\<rparr>)"
proof (induction d arbitrary: md)
  case Nil
  show ?case by simp
next
  case (Cons kv d)
  obtain key vs where kv: "kv = (key, vs)" by (cases kv)
  have d0: "p_list_depth (title md 3 key) = 0" using Cons.prems by (simp add: md_simps)
  have n: "None \<notin> set (sorted_values vs)" using Cons.prems kv by (simp add: sorted_values_set)
  let ?md' = "md\<lparr>p_data := p_data md @ category_section (key, entries_of vs)\<rparr>"
  let ?t = "title md 3 key"
  let ?es = "map (\<lambda>(bp_id, bp). (bp_id, sort_key id_attr (attributes bp)))
               (List.map_filter (\<lambda>v. v) (sorted_values vs))"
  have rb: "render_bps ?t (sorted_values vs)
      = Inr (?t\<lparr>p_data := p_data ?t @ concat (map blueprint_entry ?es)\<rparr>)"
    by (rule render_bps_text [OF d0 n])
  have pop: "list_pop (?t\<lparr>p_data := p_data ?t @ concat (map blueprint_entry ?es)\<rparr>) = ?md'"
    by (rule MarkdownFile_eqI)
      (simp_all add: md_simps category_section_def entries_of_def str_mul_numerals Cons.prems(1))
  have d: "p_list_depth ?md' = 0" using Cons.prems by simp
  have rest: "\<forall>(key, vs) \<in> set d. None \<notin> set vs" using Cons.prems by simp
  have "render_dict md (kv # d) = render_dict ?md' d"
    by (simp only: kv render_dict.simps rb pop sum.case)
  also have "\<dots> = Inr (?md'\<lparr>p_data := p_data ?md' @ concat (map category_section
            (map (\<lambda>(key, vs). (key, entries_of vs)) d))\<rparr>)"
    by (rule Cons.IH [OF d rest])
  finally show ?case by (simp add: kv)
qed


text \<open>The grouping loop.\<close>

lemma find_value_cases:
  "(bp_id \<notin> id_bp ` set bps \<and> find_value bp_id bps v = v) \<or>
   (\<exists>bp \<in> set bps. id_bp bp = bp_id \<and> find_value bp_id bps v = Some (bp_id, bp))"
proof (induction bps arbitrary: v)
  case Nil
  show ?case by simp
next
  case (Cons b bps)
  let ?v = "if id_bp b = bp_id then Some (bp_id, b) else v"
  from Cons.IH [of ?v] show ?case by (cases "id_bp b = bp_id") auto
qed

lemma find_value_found:
  assumes "bp_id \<in> id_bp ` set bps"
  shows "\<exists>bp \<in> set bps. id_bp bp = bp_id \<and> find_value bp_id bps None = Some (bp_id, bp)"
  using find_value_cases [of bp_id bps None] assms by blast

lemma keys_dict_add:
  "map fst (dict_add k v d) = (if k \<in> set (map fst d) then map fst d else map fst d @ [k])"
  by (induction d) force+

lemma dict_add_member:
  "(key, vs) \<in> set (dict_add k v d) \<Longrightarrow> x \<in> set vs \<Longrightarrow>
   (x = v \<and> key = k) \<or> (\<exists>vs0. (key, vs0) \<in> set d \<and> x \<in> set vs0)"
proof (induction d)
  case Nil
  then show ?case by simp
next
  case (Cons e d)
  obtain k' vs' where e: "e = (k', vs')" by (cases e)
  show ?case
  proof (cases "k' = k")
    case True
    with Cons.prems e have "(key, vs) = (k, vs' @ [v]) \<or> (key, vs) \<in> set d" by simp
    then show ?thesis
    proof
      assume "(key, vs) = (k, vs' @ [v])"
      with Cons.prems(2) have "x \<in> set vs' \<or> x = v" and "key = k" by auto
      then show ?thesis using e True by auto
    next
      assume "(key, vs) \<in> set d"
      with Cons.prems(2) show ?thesis by auto
    qed
  next
    case False
    with Cons.prems e
    have "(key, vs) = (k', vs') \<or> (key, vs) \<in> set (dict_add k v d)" by simp
    then show ?thesis
    proof
      assume "(key, vs) = (k', vs')"
      with Cons.prems(2) e show ?thesis by auto
    next
      assume "(key, vs) \<in> set (dict_add k v d)"
      from Cons.IH [OF this Cons.prems(2)] show ?thesis by auto
    qed
  qed
qed

lemma dict_add_all:
  assumes "\<forall>(key, vs) \<in> set d. \<forall>x \<in> set vs. P key x" and "P k v"
  shows "\<forall>(key, vs) \<in> set (dict_add k v d). \<forall>x \<in> set vs. P key x"
proof (clarify)
  fix key vs x
  assume "(key, vs) \<in> set (dict_add k v d)" and "x \<in> set vs"
  then have "(x = v \<and> key = k) \<or> (\<exists>vs0. (key, vs0) \<in> set d \<and> x \<in> set vs0)"
    by (rule dict_add_member)
  with assms show "P key x" by blast
qed

lemma flatten_ids_dict_add:
  "mset (flatten_ids (dict_add k (Some (i, bp)) d)) = mset (flatten_ids d) + {#i#}"
  by (induction d) (auto simp: flatten_ids_def map_filter_simps List.map_filter_def)

lemma group_loop_all:
  "set ids \<subseteq> id_bp ` set bps \<Longrightarrow>
   \<forall>(key, vs) \<in> set d. \<forall>x \<in> set vs.
      \<exists>bp \<in> set bps. x = Some (id_bp bp, bp) \<and> key = bp_type_of (id_bp bp) \<Longrightarrow>
   \<forall>(key, vs) \<in> set (group_loop ids bps d). \<forall>x \<in> set vs.
      \<exists>bp \<in> set bps. x = Some (id_bp bp, bp) \<and> key = bp_type_of (id_bp bp)"
proof (induction ids arbitrary: d)
  case Nil
  then show ?case by simp
next
  case (Cons i ids)
  from Cons.prems(1) have "i \<in> id_bp ` set bps" by simp
  then obtain bp where bp: "bp \<in> set bps" "id_bp bp = i"
      "find_value i bps None = Some (i, bp)"
    using find_value_found by blast
  let ?P = "\<lambda>key x. \<exists>bp \<in> set bps. x = Some (id_bp bp, bp) \<and> key = bp_type_of (id_bp bp)"
  have "?P (bp_type_of i) (Some (i, bp))" using bp by auto
  with Cons.prems(2)
  have "\<forall>(key, vs) \<in> set (dict_add (bp_type_of i) (Some (i, bp)) d). \<forall>x \<in> set vs. ?P key x"
    by (rule dict_add_all)
  moreover have "set ids \<subseteq> id_bp ` set bps" using Cons.prems(1) by simp
  ultimately show ?case using Cons.IH bp(3) by simp
qed

lemma group_loop_mset:
  "set ids \<subseteq> id_bp ` set bps \<Longrightarrow>
   mset (flatten_ids (group_loop ids bps d)) = mset (flatten_ids d) + mset ids"
proof (induction ids arbitrary: d)
  case Nil
  show ?case by simp
next
  case (Cons i ids)
  from Cons.prems have "i \<in> id_bp ` set bps" by simp
  then obtain bp where bp: "find_value i bps None = Some (i, bp)"
    using find_value_found by blast
  have "set ids \<subseteq> id_bp ` set bps" using Cons.prems by simp
  then show ?case by (simp add: bp Cons.IH flatten_ids_dict_add)
qed

lemma removeAll_filter: "removeAll k (filter P xs) = filter (\<lambda>x. P x \<and> x \<noteq> k) xs"
  by (induction xs) auto

lemma group_loop_keys:
  "map fst (group_loop ids bps d) =
     map fst d @ first_occurrences (filter (\<lambda>k. k \<notin> set (map fst d)) (map bp_type_of ids))"
proof (induction ids arbitrary: d)
  case Nil
  show ?case by simp
next
  case (Cons i ids)
  let ?k = "bp_type_of i"
  let ?d = "dict_add ?k (find_value i bps None) d"
  have IH: "map fst (group_loop ids bps ?d) =
     map fst ?d @ first_occurrences (filter (\<lambda>k. k \<notin> set (map fst ?d)) (map bp_type_of ids))"
    by (rule Cons.IH)
  show ?case
  proof (cases "?k \<in> set (map fst d)")
    case True
    then have "map fst ?d = map fst d" by (simp add: keys_dict_add)
    with IH True show ?thesis by simp
  next
    case False
    then have k: "map fst ?d = map fst d @ [?k]" by (simp add: keys_dict_add)
    have "filter (\<lambda>x. x \<notin> set (map fst ?d)) (map bp_type_of ids)
        = removeAll ?k (filter (\<lambda>x. x \<notin> set (map fst d)) (map bp_type_of ids))"
      unfolding k removeAll_filter by (rule filter_cong) auto
    with IH False k show ?thesis by simp
  qed
qed

lemma first_occurrences_set: "set (first_occurrences xs) = set xs"
  by (induction xs rule: first_occurrences.induct) auto

lemma first_occurrences_distinct: "distinct (first_occurrences xs)"
  by (induction xs rule: first_occurrences.induct) (auto simp: first_occurrences_set)

lemma group_blueprints_keys:
  "map fst (group_blueprints bps) = first_occurrences (map bp_type_of (sort (map id_bp bps)))"
  by (simp add: group_blueprints_def group_loop_keys)

lemma group_blueprints_all:
  "\<forall>(key, vs) \<in> set (group_blueprints bps). \<forall>x \<in> set vs.
      \<exists>bp \<in> set bps. x = Some (id_bp bp, bp) \<and> key = bp_type_of (id_bp bp)"
  unfolding group_blueprints_def by (rule group_loop_all) simp_all

lemma group_blueprints_no_None: "\<forall>(key, vs) \<in> set (group_blueprints bps). None \<notin> set vs"
  using group_blueprints_all [of bps] by fastforce

lemma group_blueprints_mset:
  "mset (flatten_ids (group_blueprints bps)) = mset (map id_bp bps)"
  unfolding group_blueprints_def by (subst group_loop_mset) (simp_all add: flatten_ids_def)

text \<open>The two sorts.\<close>

lemma sorted_map_filter_Some:
  "sorted (map (map_option fst) xs) \<Longrightarrow> sorted (map fst (List.map_filter (\<lambda>v. v) xs))"
proof (induction xs)
  case Nil
  show ?case by (simp add: map_filter_simps)
next
  case (Cons x xs)
  show ?case
  proof (cases x)
    case None
    with Cons show ?thesis by (simp add: map_filter_simps)
  next
    case (Some p)
    have "fst p \<le> fst q" if "q \<in> set (List.map_filter (\<lambda>v. v) xs)" for q
    proof -
      from that have "Some q \<in> set xs" by (auto simp: List.map_filter_def)
      moreover from Cons.prems Some
      have "\<forall>y \<in> set xs. Some (fst p) \<le> map_option fst y" by simp
      ultimately have "Some (fst p) \<le> map_option fst (Some q)" by blast
      then show ?thesis by simp
    qed
    with Cons Some show ?thesis by (auto simp: map_filter_simps)
  qed
qed

lemma entries_of_sorted: "sorted (map fst (entries_of vs))"
proof -
  have "map fst (entries_of vs) = map fst (List.map_filter (\<lambda>v. v) (sorted_values vs))"
    by (simp add: entries_of_def case_prod_unfold comp_def)
  moreover have "sorted (map (map_option fst) (sorted_values vs))"
    by (simp add: sorted_values_def)
  ultimately show ?thesis by (simp add: sorted_map_filter_Some)
qed

lemma entries_of_attrs_sorted:
  "\<forall>(bp_id, attrs) \<in> set (entries_of vs). sorted (map id_attr attrs)"
  by (auto simp: entries_of_def)

lemma preamble_depth: "p_list_depth (preamble init) = 0"
  by (simp add: preamble_def Let_def md_simps init_def)

lemma generate_pb_docs_layout:
  "generate_pb_docs (Inr bps) =
     ([''Generating API blueprint documentation...''], Inr (document_text (layout bps)))"
  by (simp add: generate_pb_docs_def
      render_dict_text [OF preamble_depth group_blueprints_no_None]
      document_text_def layout_def data_def)


section \<open>Properties of the assembler and of the entry point\<close>

text \<open>
  Claim C1. When the client raises \<^verbatim>\<open>RuntimeError\<close> (the simulator is unreachable or
  times out), \<^verbatim>\<open>main\<close> prints, after the line of \<^verbatim>\<open>generate_pb_docs\<close>, the four lines
  of the diagnostic: a blank line and the error message, then the three lines of a box
  that asks to make sure the simulator is connected, then a blank line. It writes no file
  and ends with \<^verbatim>\<open>sys.exit(0)\<close>: no exception leaves it, and the status of the process
  is 0, as on the path where the document is written.
\<close>

theorem main_connection_failure:
  "main (Inl RuntimeError) file_error =
     \<lparr>stdout =
        [''Generating API blueprint documentation...'',
         [CHR 0x0A] @ ''  [ERROR] Can'' @ [CHR 0x27]
           @ ''t establish connection with the simulator'',
         '' .---------------------------------------------------.'',
         ''  |       Make sure the simulator is connected!       |'',
         ''  '' @ [CHR 0x27] @ ''---------------------------------------------------''
           @ [CHR 0x27, CHR 0x0A]],
      written = None, ended = SysExit 0\<rparr> \<and>
   exit_status (ended (main (Inl RuntimeError) file_error)) = 0 \<and>
   exit_status (ended (main (Inr blueprints) None)) = 0"
proof -
  have 1: "main (Inl RuntimeError) file_error =
     \<lparr>stdout =
        [''Generating API blueprint documentation...'',
         [CHR 0x0A] @ ''  [ERROR] Can'' @ [CHR 0x27]
           @ ''t establish connection with the simulator'',
         '' .---------------------------------------------------.'',
         ''  |       Make sure the simulator is connected!       |'',
         ''  '' @ [CHR 0x27] @ ''---------------------------------------------------''
           @ [CHR 0x27, CHR 0x0A]],
      written = None, ended = SysExit 0\<rparr>"
    by (simp add: main_def generate_pb_docs_def connection_diagnostic_def newline_def)
  have 2: "exit_status (ended (main (Inr blueprints) None)) = 0"
    by (simp add: main_def generate_pb_docs_layout exit_status_def)
  have 3: "exit_status (ended (main (Inl RuntimeError) file_error)) = 0"
    by (simp only: 1 outcome.simps exit_status_def ending.case)
  from 1 2 3 show ?thesis by (simp only: simp_thms)
qed

text \<open>
  Claim C3. The identifiers held by the groups of \<^verbatim>\<open>bp_dict\<close>, taken together, are the
  fetched identifiers, each as many times as it was fetched. The keys are distinct, and
  every entry of a group is a fetched blueprint with its identifier, under the key that is
  the text of the identifier before its first \<^verbatim>\<open>.\<close>.
\<close>

theorem grouping_preserves_identifiers:
  "mset (flatten_ids (group_blueprints blueprints)) = mset (map id_bp blueprints) \<and>
   distinct (map fst (group_blueprints blueprints)) \<and>
   (\<forall>(key, vs) \<in> set (group_blueprints blueprints). \<forall>v \<in> set vs.
      \<exists>bp \<in> set blueprints.
        v = Some (id_bp bp, bp) \<and> key = takeWhile (\<lambda>c. c \<noteq> CHR ''.'') (id_bp bp))"
  using group_blueprints_all [of blueprints]
  by (simp add: group_blueprints_mset group_blueprints_keys first_occurrences_distinct
      bp_type_of_takeWhile)

text \<open>
  Claim C4. The document is the preamble followed by the sections of the layout, each
  the heading followed by its entries, each the bullet and the label followed by its
  attribute lines. In every section the identifiers of the entries are in non-decreasing
  order, and in every entry the identifiers of the attributes are.
\<close>

theorem rendered_entries_sorted:
  "snd (generate_pb_docs (Inr blueprints)) = Inr (document_text (layout blueprints)) \<and>
   (\<forall>(key, entries) \<in> set (layout blueprints).
      sorted (map fst entries) \<and>
      (\<forall>(bp_id, attrs) \<in> set entries. sorted (map id_attr attrs)))"
  using entries_of_attrs_sorted
  by (auto simp: generate_pb_docs_layout layout_def entries_of_sorted)

text \<open>
  Claim C5. The sections of the document, and so their headings, follow the order in
  which the categories first occur in the sorted list of the identifiers.
\<close>

theorem category_headings_order:
  "snd (generate_pb_docs (Inr blueprints)) = Inr (document_text (layout blueprints)) \<and>
   map fst (layout blueprints) =
     first_occurrences (map bp_type_of (sort (map id_bp blueprints)))"
proof -
  have "map fst (layout blueprints) = map fst (group_blueprints blueprints)"
    by (simp add: layout_def case_prod_unfold comp_def)
  then show ?thesis by (simp add: generate_pb_docs_layout group_blueprints_keys)
qed


theorem main_connection_failure_witness:
  "ended (main (Inl RuntimeError) None) = SysExit 0 \<and>
   written (main (Inl RuntimeError) None) = None \<and>
   stdout (main (Inl RuntimeError) None) =
     [''Generating API blueprint documentation...'',
         [CHR 0x0A] @ ''  [ERROR] Can'' @ [CHR 0x27]
           @ ''t establish connection with the simulator'',
         '' .---------------------------------------------------.'',
         ''  |       Make sure the simulator is connected!       |'',
         ''  '' @ [CHR 0x27] @ ''---------------------------------------------------''
           @ [CHR 0x27, CHR 0x0A]] \<and>
   exit_status (ended (main (Inl RuntimeError) None)) = 0 \<and>
   exit_status (ended (main (Inr []) None)) = 0"
proof -
  note t = main_connection_failure [of None "[]"]
  from t have 1: "main (Inl RuntimeError) None =
     \<lparr>stdout =
        [''Generating API blueprint documentation...'',
         [CHR 0x0A] @ ''  [ERROR] Can'' @ [CHR 0x27]
           @ ''t establish connection with the simulator'',
         '' .---------------------------------------------------.'',
         ''  |       Make sure the simulator is connected!       |'',
         ''  '' @ [CHR 0x27] @ ''---------------------------------------------------''
           @ [CHR 0x27, CHR 0x0A]],
      written = None, ended = SysExit 0\<rparr>"
    by (rule conjunct1)
  from t have 2: "exit_status (ended (main (Inl RuntimeError) None)) = 0
      \<and> exit_status (ended (main (Inr []) None)) = 0"
    by (rule conjunct2)
  have 3: "ended (main (Inl RuntimeError) None) = SysExit 0"
    by (simp only: 1 outcome.simps)
  have 4: "written (main (Inl RuntimeError) None) = None"
    by (simp only: 1 outcome.simps)
  have 5: "stdout (main (Inl RuntimeError) None) =
     [''Generating API blueprint documentation...'',
         [CHR 0x0A] @ ''  [ERROR] Can'' @ [CHR 0x27]
           @ ''t establish connection with the simulator'',
         '' .---------------------------------------------------.'',
         ''  |       Make sure the simulator is connected!       |'',
         ''  '' @ [CHR 0x27] @ ''---------------------------------------------------''
           @ [CHR 0x27, CHR 0x0A]]"
    by (simp only: 1 outcome.simps)
  from 2 3 4 5 show ?thesis by (simp only: simp_thms)
qed

theorem grouping_preserves_identifiers_witness:
  "mset (flatten_ids (group_blueprints
      [\<lparr>id_bp = ''walker.person'', attributes = []\<rparr>,
       \<lparr>id_bp = ''vehicle.car'', attributes = []\<rparr>]))
     = {#''walker.person'', ''vehicle.car''#} \<and>
   group_blueprints
      [\<lparr>id_bp = ''walker.person'', attributes = []\<rparr>,
       \<lparr>id_bp = ''vehicle.car'', attributes = []\<rparr>]
     = [(''vehicle'', [Some (''vehicle.car'', \<lparr>id_bp = ''vehicle.car'', attributes = []\<rparr>)]),
        (''walker'', [Some (''walker.person'', \<lparr>id_bp = ''walker.person'', attributes = []\<rparr>)])]"
proof -
  let ?B = "[\<lparr>id_bp = ''walker.person'', attributes = []\<rparr>,
             \<lparr>id_bp = ''vehicle.car'', attributes = []\<rparr>]"
  from grouping_preserves_identifiers [of ?B]
  have "mset (flatten_ids (group_blueprints ?B)) = mset (map id_bp ?B)" by blast
  moreover have "group_blueprints ?B
     = [(''vehicle'', [Some (''vehicle.car'', \<lparr>id_bp = ''vehicle.car'', attributes = []\<rparr>)]),
        (''walker'', [Some (''walker.person'', \<lparr>id_bp = ''walker.person'', attributes = []\<rparr>)])]"
    by (simp add: group_blueprints_def bp_type_of_def)
  ultimately show ?thesis by simp
qed

theorem rendered_entries_sorted_witness:
  "layout [\<lparr>id_bp = ''b.y'', attributes =
              [\<lparr>id_attr = ''speed'', type_attr = ''Float'', is_modifiable = True\<rparr>,
               \<lparr>id_attr = ''color'', type_attr = ''String'', is_modifiable = False\<rparr>]\<rparr>,
           \<lparr>id_bp = ''b.x'', attributes = []\<rparr>]
     = [(''b'', [(''b.x'', []),
                (''b.y'', [\<lparr>id_attr = ''color'', type_attr = ''String'', is_modifiable = False\<rparr>,
                          \<lparr>id_attr = ''speed'', type_attr = ''Float'', is_modifiable = True\<rparr>])])] \<and>
   sorted [''b.x'', ''b.y''] \<and> sorted [''color'', ''speed'']"
proof -
  let ?B = "[\<lparr>id_bp = ''b.y'', attributes =
              [\<lparr>id_attr = ''speed'', type_attr = ''Float'', is_modifiable = True\<rparr>,
               \<lparr>id_attr = ''color'', type_attr = ''String'', is_modifiable = False\<rparr>]\<rparr>,
           \<lparr>id_bp = ''b.x'', attributes = []\<rparr>]"
  have l: "layout ?B
     = [(''b'', [(''b.x'', []),
                (''b.y'', [\<lparr>id_attr = ''color'', type_attr = ''String'', is_modifiable = False\<rparr>,
                          \<lparr>id_attr = ''speed'', type_attr = ''Float'', is_modifiable = True\<rparr>])])]"
    by (simp add: layout_def group_blueprints_def bp_type_of_def entries_of_def
        sorted_values_def map_filter_simps)
  from rendered_entries_sorted [of ?B]
  have "\<forall>(key, entries) \<in> set (layout ?B).
      sorted (map fst entries) \<and>
      (\<forall>(bp_id, attrs) \<in> set entries. sorted (map id_attr attrs))" by blast
  then have "sorted [''b.x'', ''b.y''] \<and> sorted [''color'', ''speed'']"
    unfolding l by simp
  with l show ?thesis by simp
qed

text \<open>
  Here \<^verbatim>\<open>a-b.x\<close> sorts before \<^verbatim>\<open>a.x\<close>, so the category \<^verbatim>\<open>a-b\<close> comes before
  \<^verbatim>\<open>a\<close>, which is not the alphabetical order of the categories.
\<close>

theorem category_headings_order_witness:
  "map fst (layout [\<lparr>id_bp = ''a.x'', attributes = []\<rparr>,
                    \<lparr>id_bp = ''a-b.x'', attributes = []\<rparr>,
                    \<lparr>id_bp = ''a.y'', attributes = []\<rparr>]) = [''a-b'', ''a'']"
  using category_headings_order [of "[\<lparr>id_bp = ''a.x'', attributes = []\<rparr>,
                    \<lparr>id_bp = ''a-b.x'', attributes = []\<rparr>,
                    \<lparr>id_bp = ''a.y'', attributes = []\<rparr>]"]
  by (simp add: bp_type_of_def)

end
